theory Spec2Isabelle
  imports Main "HOL-Library.Word"
begin

unbundle bit_operations_syntax

section \<open>The machine state of src/6502.c\<close>

text \<open>
  The source declares its registers and its memory as file-scope objects:
  \<^verbatim>\<open>
  uint16_t pc;
  uint8_t s;
  uint8_t p;
  uint8_t a;
  uint8_t x;
  uint8_t y;

  uint8_t memory[];
  \<close>
  The six registers are the fields of one record and the memory array extends it, so
  that a function of the source takes the whole state and returns it updated. The array
  is a list of bytes: its extent is part of the state.
\<close>

type_synonym uint8_t = "8 word"
type_synonym uint16_t = "16 word"

record registers =
  pc :: uint16_t
  s :: uint8_t
  p :: uint8_t
  a :: uint8_t
  x :: uint8_t
  y :: uint8_t

record machine = registers +
  memory :: "uint8_t list"

text \<open>
  None of the objects has an initialiser, so each is a tentative definition, which C
  initialises to zero at program start; the array of unknown size gets one element.
\<close>

definition startup :: machine where
  "startup = \<lparr>pc = 0, s = 0, p = 0, a = 0, x = 0, y = 0, memory = [0]\<rparr>"

subsection \<open>The functions\<close>

text \<open>
  \<^verbatim>\<open>
  void reset(){
      pc = 0xFFFC;

  }
  \<close>
\<close>

definition reset :: "machine \<Rightarrow> machine" where
  "reset m = m\<lparr>pc := 0xFFFC\<rparr>"

text \<open>
  \<^verbatim>\<open>
  int main(){

  }
  \<close>
  Control reaches the closing brace of \<open>main\<close>, which in C99 (the source includes
  \<open>stdint.h\<close>) returns 0. The result is the returned value and the state left behind.
\<close>

definition main :: "machine \<Rightarrow> int \<times> machine" where
  "main m = (0, m)"

subsection \<open>The processor status bits\<close>

text \<open>
  The source's comment on the P register lists the flags "starting from the 8th bit of
  the P register (bit 7, value $80)": N, V, the unused flag, B, D, I, Z, C.
\<close>

datatype flag =
  Negative | Overflow | Unused | Break | Decimal | Interrupt_Disable | Zero | Carry

fun flag_bit :: "flag \<Rightarrow> nat" where
  "flag_bit Negative = 7"
| "flag_bit Overflow = 6"
| "flag_bit Unused = 5"
| "flag_bit Break = 4"
| "flag_bit Decimal = 3"
| "flag_bit Interrupt_Disable = 2"
| "flag_bit Zero = 1"
| "flag_bit Carry = 0"

definition get_flag :: "flag \<Rightarrow> uint8_t \<Rightarrow> bool" where
  "get_flag f v = bit v (flag_bit f)"

subsection \<open>Reading a vector from the memory array\<close>

text \<open>
  Modelled from the spec: the 16-bit value of two bytes, high and low; the spec's
  addresses and vectors are "little-endian 16-bit". The source combines no bytes.
\<close>

definition word16 :: "uint8_t \<Rightarrow> uint8_t \<Rightarrow> uint16_t" where
  "word16 hi lo = push_bit 8 (ucast hi) OR ucast lo"

text \<open>
  Modelled from the spec: a read of the source's \<open>memory\<close> array, which the source
  never reads. A read outside the extent of the array has no value.
\<close>

definition memory_byte :: "uint8_t list \<Rightarrow> nat \<Rightarrow> uint8_t option" where
  "memory_byte mem i = (if i < length mem then Some (mem ! i) else None)"

text \<open>
  Modelled from the spec: a vector in the \<open>memory\<close> array, "holding a little-endian
  16-bit target address": the low byte at the address, the high byte after it. The source
  reads no vector.
\<close>

definition memory_vector :: "uint8_t list \<Rightarrow> nat \<Rightarrow> uint16_t option" where
  "memory_vector mem i =
     (case (memory_byte mem i, memory_byte mem (i + 1)) of
        (Some lo, Some hi) \<Rightarrow> Some (word16 hi lo)
      | _ \<Rightarrow> None)"

text \<open>
  A state with a full 64KB memory whose RESET vector holds $0600: the bytes $00, $06 at
  $FFFC, $FFFD. Every register is zero.
\<close>

definition vector_0600 :: machine where
  "vector_0600 =
     \<lparr>pc = 0, s = 0, p = 0, a = 0, x = 0, y = 0,
      memory = replicate 65532 0 @ [0x00, 0x06, 0x00, 0x00]\<rparr>"

section \<open>The instruction engine of the spec\<close>

text \<open>
  The source stops at the registers and \<open>reset\<close>. The bus, the flag updates, the
  addressing-mode resolver, the opcode table, the dispatcher and the interrupt sequence
  exist in the spec only; each definition below follows the spec's words and works on
  the \<open>registers\<close> of the source.
\<close>

subsection \<open>Bus\<close>

text \<open>
  Modelled from the spec: the bus, an "external 64KB byte-addressable space" where the
  core "treats every address as readable/writable". The source has no bus. A bus holds a
  byte at each 16-bit address.
\<close>

type_synonym bus = "uint16_t \<Rightarrow> uint8_t"

text \<open>
  Modelled from the spec: "read_byte(address: u16) -> u8" of the bus capability, absent
  from the source.
\<close>

definition read_byte :: "bus \<Rightarrow> uint16_t \<Rightarrow> uint8_t" where
  "read_byte b addr = b addr"

text \<open>
  Modelled from the spec: "write_byte(address: u16, value: u8)" of the bus capability,
  absent from the source. A later read of the address returns the byte written.
\<close>

definition write_byte :: "bus \<Rightarrow> uint16_t \<Rightarrow> uint8_t \<Rightarrow> bus" where
  "write_byte b addr v = b(addr := v)"

text \<open>
  Modelled from the spec: a vector or pointer, "little-endian 16-bit", read from the bus;
  the second address is a 16-bit computation. The source reads no memory.
\<close>

definition read_word :: "bus \<Rightarrow> uint16_t \<Rightarrow> uint16_t" where
  "read_word b addr = word16 (read_byte b (addr + 1)) (read_byte b addr)"

subsection \<open>Flags register\<close>

text \<open>
  Modelled from the spec: "set(flag, bool)" of the flags register. The source never
  writes \<open>p\<close>.
\<close>

definition set_flag :: "flag \<Rightarrow> bool \<Rightarrow> uint8_t \<Rightarrow> uint8_t" where
  "set_flag f v flags =
     (if v then set_bit (flag_bit f) flags else unset_bit (flag_bit f) flags)"

text \<open>
  Modelled from the spec: "update_nz(value) sets N from bit 7 and Z from value==0".
  The source has no flag update.
\<close>

definition update_nz :: "uint8_t \<Rightarrow> uint8_t \<Rightarrow> uint8_t" where
  "update_nz v flags = set_flag Zero (v = 0) (set_flag Negative (bit v 7) flags)"

text \<open>
  Modelled from the spec: "update_overflow_add(a, b, result) sets V ... when operands
  share a sign and the result's sign differs from theirs"; the source's comment on V adds
  "cleared otherwise". The source has no flag update.
\<close>

definition update_overflow_add :: "uint8_t \<Rightarrow> uint8_t \<Rightarrow> uint8_t \<Rightarrow> uint8_t \<Rightarrow> uint8_t" where
  "update_overflow_add m n r flags =
     set_flag Overflow (bit m 7 = bit n 7 \<and> bit r 7 \<noteq> bit m 7) flags"

subsection \<open>Addressing-mode resolver\<close>

text \<open>
  Modelled from the spec: the thirteen addressing modes, "implied, accumulator, immediate,
  zero-page, zero-page-X, zero-page-Y, absolute, absolute-X, absolute-Y, indirect (JMP
  only), indexed-indirect ((zp,X)), indirect-indexed ((zp),Y), relative (branches)".
  The source has no addressing modes.
\<close>

datatype mode =
  Implied | Accumulator | Immediate
  | Zero_Page | Zero_Page_X | Zero_Page_Y
  | Absolute | Absolute_X | Absolute_Y
  | Indirect | Indexed_Indirect | Indirect_Indexed
  | Relative

text \<open>
  Modelled from the spec: a resolution "computes the effective operand address (or
  signals "operate on accumulator"/"no operand")" and "reports whether a page boundary
  was crossed", "advancing an internal cursor" over the operand bytes. The source has no
  resolver.
\<close>

datatype operand = No_Operand | On_Accumulator | Effective uint16_t

record resolution =
  operand :: operand
  crossed :: bool
  cursor :: uint16_t

text \<open>
  Modelled from the spec: the address that a number stands for when "all 16-bit
  arithmetic wraps modulo 65536". The results of the resolver are stated with it.
\<close>

definition address :: "nat \<Rightarrow> uint16_t" where
  "address n = of_nat (n mod 65536)"

text \<open>
  Modelled from the spec: the zero-page address that a number stands for when "all 8-bit
  zero-page arithmetic wraps modulo 256". The results of the resolver are stated with it.
\<close>

definition zero_page :: "nat \<Rightarrow> uint16_t" where
  "zero_page n = of_nat (n mod 256)"

text \<open>
  Modelled from the spec: "8-bit wraparound for zero-page arithmetic (index additions
  wrap within the zero page)". The sum is taken in 8 bits and then widened.
\<close>

definition zero_page_indexed :: "uint8_t \<Rightarrow> uint8_t \<Rightarrow> uint16_t" where
  "zero_page_indexed base idx = ucast (base + idx)"

text \<open>
  Modelled from the spec: "16-bit wraparound for absolute/indirect computations". The
  index is widened and the sum taken in 16 bits.
\<close>

definition absolute_indexed :: "uint16_t \<Rightarrow> uint8_t \<Rightarrow> uint16_t" where
  "absolute_indexed base idx = base + ucast idx"

text \<open>
  Modelled from the spec: "Relative mode converts a signed 8-bit displacement to a target
  address relative to the address after the two-byte branch instruction". The
  displacement is sign-extended and the sum taken in 16 bits.
\<close>

definition relative_target :: "uint16_t \<Rightarrow> uint8_t \<Rightarrow> uint16_t" where
  "relative_target origin disp = origin + scast disp"

text \<open>
  Modelled from the spec: "whether the resolved address crosses a 256-byte page boundary
  relative to the unindexed base": the two addresses differ in their high byte.
\<close>

definition page_crossed :: "uint16_t \<Rightarrow> uint16_t \<Rightarrow> bool" where
  "page_crossed base ea = (drop_bit 8 base \<noteq> drop_bit 8 ea)"

text \<open>
  Modelled from the spec: the pointer of the two indirect zero-page modes, read from the
  zero page with the second byte's address wrapping within it ("8-bit wraparound for
  zero-page arithmetic").
\<close>

definition zero_page_word :: "bus \<Rightarrow> uint8_t \<Rightarrow> uint16_t" where
  "zero_page_word b zp = word16 (read_byte b (ucast (zp + 1))) (read_byte b (ucast zp))"

text \<open>
  Modelled from the spec: the resolver itself. It "reads 0, 1, or 2 operand bytes
  immediately following the opcode"; \<open>lo\<close> and \<open>hi\<close> are these bytes. The page-cross
  report of a branch compares the target with the address after the instruction.
\<close>

definition resolve :: "mode \<Rightarrow> registers \<Rightarrow> bus \<Rightarrow> resolution" where
  "resolve md c b =
     (let lo = read_byte b (pc c + 1);
          hi = read_byte b (pc c + 2)
      in case md of
           Implied \<Rightarrow> \<lparr>operand = No_Operand, crossed = False, cursor = pc c + 1\<rparr>
         | Accumulator \<Rightarrow> \<lparr>operand = On_Accumulator, crossed = False, cursor = pc c + 1\<rparr>
         | Immediate \<Rightarrow> \<lparr>operand = Effective (pc c + 1), crossed = False, cursor = pc c + 2\<rparr>
         | Zero_Page \<Rightarrow> \<lparr>operand = Effective (ucast lo), crossed = False, cursor = pc c + 2\<rparr>
         | Zero_Page_X \<Rightarrow>
             \<lparr>operand = Effective (zero_page_indexed lo (x c)), crossed = False,
              cursor = pc c + 2\<rparr>
         | Zero_Page_Y \<Rightarrow>
             \<lparr>operand = Effective (zero_page_indexed lo (y c)), crossed = False,
              cursor = pc c + 2\<rparr>
         | Absolute \<Rightarrow>
             \<lparr>operand = Effective (word16 hi lo), crossed = False, cursor = pc c + 3\<rparr>
         | Absolute_X \<Rightarrow>
             \<lparr>operand = Effective (absolute_indexed (word16 hi lo) (x c)),
              crossed = page_crossed (word16 hi lo) (absolute_indexed (word16 hi lo) (x c)),
              cursor = pc c + 3\<rparr>
         | Absolute_Y \<Rightarrow>
             \<lparr>operand = Effective (absolute_indexed (word16 hi lo) (y c)),
              crossed = page_crossed (word16 hi lo) (absolute_indexed (word16 hi lo) (y c)),
              cursor = pc c + 3\<rparr>
         | Indirect \<Rightarrow>
             \<lparr>operand = Effective (read_word b (word16 hi lo)), crossed = False,
              cursor = pc c + 3\<rparr>
         | Indexed_Indirect \<Rightarrow>
             \<lparr>operand = Effective (zero_page_word b (lo + x c)), crossed = False,
              cursor = pc c + 2\<rparr>
         | Indirect_Indexed \<Rightarrow>
             \<lparr>operand = Effective (absolute_indexed (zero_page_word b lo) (y c)),
              crossed =
                page_crossed (zero_page_word b lo)
                  (absolute_indexed (zero_page_word b lo) (y c)),
              cursor = pc c + 2\<rparr>
         | Relative \<Rightarrow>
             \<lparr>operand = Effective (relative_target (pc c + 2) lo),
              crossed = page_crossed (pc c + 2) (relative_target (pc c + 2) lo),
              cursor = pc c + 2\<rparr>)"

subsection \<open>Opcode table\<close>

text \<open>
  Modelled from the spec: an "opcode table entry" is an "immutable triple (instruction
  kind, addressing mode, base cycle count)", with "a policy slot for undefined opcodes".
  The kinds are the instructions the spec gives a behaviour for that is used below: ADC,
  BRK, RTI and the branches, a branch being taken when its flag has the given value. The
  source has no opcode table.
\<close>

datatype kind = ADC | BRK | RTI | Branch flag bool | Undefined

record entry =
  kind :: kind
  mode :: mode
  cycles :: nat

text \<open>
  Modelled from the spec: the policy for undefined opcodes, "either treat as a no-effect
  instruction with a fixed cycle count, or fail with an "unknown opcode" condition", and
  that condition as the one failure of the core.
\<close>

datatype policy = Permissive | Strict

datatype failure = Unknown_Opcode

subsection \<open>Stack\<close>

text \<open>
  Modelled from the spec: the Stack Pointer is an "8-bit offset into the fixed stack page
  $0100-$01FF". The source computes no stack address.
\<close>

definition stack_address :: "uint8_t \<Rightarrow> uint16_t" where
  "stack_address sp = 0x0100 + ucast sp"

text \<open>
  Modelled from the spec: a push stores at the stack address, with the "stack pointer
  decremented by one per push, wrapping within the stack page". The source has no push.
\<close>

definition push :: "uint8_t \<Rightarrow> registers \<times> bus \<Rightarrow> registers \<times> bus" where
  "push v cb =
     (case cb of (c, b) \<Rightarrow> (c\<lparr>s := s c - 1\<rparr>, write_byte b (stack_address (s c)) v))"

text \<open>
  Modelled from the spec: a pop, the reverse of a push ("RTI reverses the push sequence"):
  the stack pointer is incremented, wrapping within the stack page, and the byte at the
  new stack address is read. The source has no pop.
\<close>

definition pop :: "registers \<Rightarrow> bus \<Rightarrow> uint8_t \<times> registers" where
  "pop c b = (read_byte b (stack_address (s c + 1)), c\<lparr>s := s c + 1\<rparr>)"

subsection \<open>Instruction effects\<close>

text \<open>
  Modelled from the spec: ADC, add with carry. The spec gives its flag rules
  (\<open>update_nz\<close>, \<open>update_overflow_add\<close>) and one example; the source's comment on C
  says that in additions the carry "acts as a 9th bit". The sum is taken in binary; the
  spec leaves decimal mode open. The source has no ADC.
\<close>

definition adc :: "uint8_t \<Rightarrow> registers \<Rightarrow> registers" where
  "adc m c =
     (let sum = unat (a c) + unat m + (if get_flag Carry (p c) then 1 else 0);
          r = (of_nat sum :: uint8_t)
      in c\<lparr>a := r,
           p := update_nz r
                  (update_overflow_add (a c) m r (set_flag Carry (255 < sum) (p c)))\<rparr>)"

text \<open>
  Modelled from the spec: the interrupt sequence, "push PC high byte, PC low byte, then
  the flags byte onto the stack ...; for BRK, the pushed flags byte has B set; for a
  genuine hardware interrupt, B is clear. Set the Interrupt-disable flag. Load PC from
  the ... vector". The source has no interrupt sequence.
\<close>

definition interrupt :: "bool \<Rightarrow> uint16_t \<Rightarrow> registers \<Rightarrow> bus \<Rightarrow> registers \<times> bus" where
  "interrupt software vector c b =
     (case push (set_flag Break software (p c))
             (push (ucast (pc c)) (push (ucast (drop_bit 8 (pc c))) (c, b))) of
        (c', b') \<Rightarrow>
          (c'\<lparr>pc := read_word b' vector, p := set_flag Interrupt_Disable True (p c')\<rparr>, b'))"

text \<open>
  Modelled from the spec: "RTI reverses the push sequence: pop flags, pop PC low, pop PC
  high (restoring the exact pre-interrupt B/flag pattern from the stack)". The source has
  no RTI.
\<close>

definition rti :: "registers \<Rightarrow> bus \<Rightarrow> registers" where
  "rti c b =
     (case pop c b of (flags, c1) \<Rightarrow>
      case pop c1 b of (lo, c2) \<Rightarrow>
      case pop c2 b of (hi, c3) \<Rightarrow> c3\<lparr>pc := word16 hi lo, p := flags\<rparr>)"

subsection \<open>Dispatcher\<close>

text \<open>
  Modelled from the spec: what the dispatcher does with an undefined opcode under each
  policy. The source has no dispatcher.
\<close>

definition undefined_opcode ::
  "policy \<Rightarrow> nat \<Rightarrow> registers \<Rightarrow> bus \<Rightarrow> failure + registers \<times> bus \<times> nat" where
  "undefined_opcode pol base c b =
     (case pol of Strict \<Rightarrow> Inl Unknown_Opcode | Permissive \<Rightarrow> Inr (c, b, base))"

text \<open>
  Modelled from the spec: "execute the instruction's effect ...; return base cycle count
  plus any page-cross or branch-taken penalty (a taken branch costs one extra cycle, plus
  one more if it crosses a page boundary)"; a read instruction in an indexed mode pays
  one cycle for a page cross. The registers arrive with PC already past the instruction.
  An entry that pairs ADC or a branch with a mode that yields no address is no
  instruction and falls to the policy for undefined opcodes.
\<close>

fun execute ::
  "policy \<Rightarrow> kind \<Rightarrow> operand \<Rightarrow> bool \<Rightarrow> nat \<Rightarrow> registers \<Rightarrow> bus
     \<Rightarrow> failure + registers \<times> bus \<times> nat" where
  "execute pol ADC (Effective addr) cross base c b =
     Inr (adc (read_byte b addr) c, b, base + (if cross then 1 else 0))"
| "execute pol (Branch f v) (Effective target) cross base c b =
     (if get_flag f (p c) = v
      then Inr (c\<lparr>pc := target\<rparr>, b, base + 1 + (if cross then 1 else 0))
      else Inr (c, b, base))"
| "execute pol BRK opnd cross base c b =
     (case interrupt True 0xFFFE c b of (c', b') \<Rightarrow> Inr (c', b', base))"
| "execute pol RTI opnd cross base c b = Inr (rti c b, b, base)"
| "execute pol k opnd cross base c b = undefined_opcode pol base c b"

text \<open>
  Modelled from the spec: "step(cpu, bus) -> cycles. Sequence: read the byte at PC as
  opcode; look up its table entry; resolve operand address/value ...; advance PC past the
  instruction's total byte length; execute the instruction's effect". The table and the
  policy are parameters: the spec lists no table entry. The source has no \<open>step\<close>.
\<close>

definition step ::
  "policy \<Rightarrow> (uint8_t \<Rightarrow> entry) \<Rightarrow> registers \<Rightarrow> bus \<Rightarrow> failure + registers \<times> bus \<times> nat" where
  "step pol table c b =
     (let e = table (read_byte b (pc c));
          r = resolve (mode e) c b
      in execute pol (kind e) (operand r) (crossed r) (cycles e) (c\<lparr>pc := cursor r\<rparr>) b)"

subsection \<open>A table and programs to run\<close>

text \<open>
  Modelled from the spec: an opcode table, which the source lacks and of which the spec
  gives the shape only. The entries are the 6502's documented ones for the modelled
  kinds: ADC in its eight modes, BRK, RTI, and the eight branches BPL, BMI, BVC, BVS,
  BCC, BCS, BNE, BEQ; every other byte is an undefined opcode.
\<close>

definition sample_table :: "uint8_t \<Rightarrow> entry" where
  "sample_table opc =
     (if opc = 0x69 then \<lparr>kind = ADC, mode = Immediate, cycles = 2\<rparr>
      else if opc = 0x65 then \<lparr>kind = ADC, mode = Zero_Page, cycles = 3\<rparr>
      else if opc = 0x75 then \<lparr>kind = ADC, mode = Zero_Page_X, cycles = 4\<rparr>
      else if opc = 0x6D then \<lparr>kind = ADC, mode = Absolute, cycles = 4\<rparr>
      else if opc = 0x7D then \<lparr>kind = ADC, mode = Absolute_X, cycles = 4\<rparr>
      else if opc = 0x79 then \<lparr>kind = ADC, mode = Absolute_Y, cycles = 4\<rparr>
      else if opc = 0x61 then \<lparr>kind = ADC, mode = Indexed_Indirect, cycles = 6\<rparr>
      else if opc = 0x71 then \<lparr>kind = ADC, mode = Indirect_Indexed, cycles = 5\<rparr>
      else if opc = 0x00 then \<lparr>kind = BRK, mode = Implied, cycles = 7\<rparr>
      else if opc = 0x40 then \<lparr>kind = RTI, mode = Implied, cycles = 6\<rparr>
      else if opc = 0x10 then \<lparr>kind = Branch Negative False, mode = Relative, cycles = 2\<rparr>
      else if opc = 0x30 then \<lparr>kind = Branch Negative True, mode = Relative, cycles = 2\<rparr>
      else if opc = 0x50 then \<lparr>kind = Branch Overflow False, mode = Relative, cycles = 2\<rparr>
      else if opc = 0x70 then \<lparr>kind = Branch Overflow True, mode = Relative, cycles = 2\<rparr>
      else if opc = 0x90 then \<lparr>kind = Branch Carry False, mode = Relative, cycles = 2\<rparr>
      else if opc = 0xB0 then \<lparr>kind = Branch Carry True, mode = Relative, cycles = 2\<rparr>
      else if opc = 0xD0 then \<lparr>kind = Branch Zero False, mode = Relative, cycles = 2\<rparr>
      else if opc = 0xF0 then \<lparr>kind = Branch Zero True, mode = Relative, cycles = 2\<rparr>
      else \<lparr>kind = Undefined, mode = Implied, cycles = 2\<rparr>)"

text \<open>
  Registers with A = $01, S = $FD and only the unused flag set, at $0600 and at $06F0, and
  three programs: \<open>ADC #$7F\<close> at $0600; \<open>BRK\<close> at $0600 with the IRQ/BRK vector
  pointing at an \<open>RTI\<close> at $1234; at $06F0 a two-byte branch with a given opcode and
  displacement.
\<close>

definition at_0600 :: registers where
  "at_0600 = \<lparr>pc = 0x0600, s = 0xFD, p = 0x20, a = 0x01, x = 0, y = 0\<rparr>"

definition at_06F0 :: registers where
  "at_06F0 = \<lparr>pc = 0x06F0, s = 0xFD, p = 0x20, a = 0x01, x = 0, y = 0\<rparr>"

definition adc_7F_program :: bus where
  "adc_7F_program = (\<lambda>_. 0)(0x0600 := 0x69, 0x0601 := 0x7F)"


definition branch_program :: "uint8_t \<Rightarrow> uint8_t \<Rightarrow> bus" where
  "branch_program opc disp = (\<lambda>_. 0)(0x06F0 := opc, 0x06F1 := disp)"



section \<open>reset and main on the source\<close>

lemma reset_fields:
  "pc (reset m) = 0xFFFC" "s (reset m) = s m" "p (reset m) = p m"
  "a (reset m) = a m" "x (reset m) = x m" "y (reset m) = y m"
  "memory (reset m) = memory m"
  by (simp_all add: reset_def)

lemma vector_0600_reads:
  "memory_vector (memory vector_0600) 0xFFFC = Some 0x0600"
  by (simp add: vector_0600_def memory_vector_def memory_byte_def nth_append word16_def)

text \<open>
  C1, as the spec states it: after \<open>reset()\<close> the stack pointer is $FD, the
  Interrupt-disable flag is set and PC is the 16-bit value stored at $FFFC/$FFFD. On the
  state \<open>vector_0600\<close> each of the three fails: \<open>reset\<close> leaves S at $00 and the I flag
  clear, and PC is the address $FFFC, not the $0600 stored there.
\<close>

theorem reset_contract_counterexample:
  "s (reset vector_0600) \<noteq> 0xFD
   \<and> \<not> get_flag Interrupt_Disable (p (reset vector_0600))
   \<and> memory_vector (memory vector_0600) 0xFFFC \<noteq> Some (pc (reset vector_0600))"
  by (simp add: reset_fields vector_0600_reads)
    (simp add: vector_0600_def get_flag_def)

text \<open>
  C1, amended: \<open>reset()\<close> sets neither the stack pointer nor the Interrupt-disable flag;
  both are after the call what they were before it, for every prior state.
\<close>

theorem reset_keeps_sp_and_interrupt_disable:
  "s (reset m) = s m
   \<and> get_flag Interrupt_Disable (p (reset m)) = get_flag Interrupt_Disable (p m)"
  by (simp add: reset_def)

text \<open>
  C7: the unused bit, bit 5 of P, is 1 in every state the operations reach. The source
  has it 0: P is zero at program start and \<open>reset\<close> and \<open>main\<close> do not assign it.
\<close>

theorem unused_bit_clear_after_reset:
  "p (reset startup) = 0
   \<and> \<not> get_flag Unused (p (reset startup))
   \<and> \<not> get_flag Unused (p (reset (snd (main startup))))"
  by (simp add: reset_def main_def startup_def get_flag_def)

text \<open>
  C8: \<open>reset()\<close> leaves the accumulator and the two index registers as they were.
\<close>

theorem reset_keeps_a_x_y:
  "a (reset m) = a m \<and> x (reset m) = x m \<and> y (reset m) = y m"
  by (simp add: reset_def)

text \<open>
  C9: \<open>reset()\<close> leaves the stack pointer and the flags byte as they were; the state
  after the call is the state before it with PC assigned.
\<close>

theorem reset_assigns_pc_only:
  "s (reset m) = s m \<and> p (reset m) = p m \<and> reset m = m\<lparr>pc := pc (reset m)\<rparr>"
  by (simp add: reset_def)

text \<open>
  C10: \<open>main()\<close> returns 0 and leaves every register and the memory as they were.
\<close>

theorem main_does_nothing:
  "fst (main m) = 0
   \<and> pc (snd (main m)) = pc m \<and> s (snd (main m)) = s m \<and> p (snd (main m)) = p m
   \<and> a (snd (main m)) = a m \<and> x (snd (main m)) = x m \<and> y (snd (main m)) = y m
   \<and> memory (snd (main m)) = memory m
   \<and> snd (main m) = m"
  by (simp add: main_def)

section \<open>Words, addresses and flags\<close>


lemma unat_ucast_8_16: "unat (ucast (w :: uint8_t) :: uint16_t) = unat w"
  by (simp add: unsigned_ucast_eq take_bit_nat_eq_self_iff order_less_trans [OF unsigned_less])

lemma unat_byte_less: "unat (w :: uint8_t) < 256"
  using unsigned_less [of w] by simp




lemma zero_page_indexed_unat:
  "unat (zero_page_indexed base idx) = (unat base + unat idx) mod 256"
  unfolding zero_page_indexed_def
  by (simp add: unat_ucast_8_16 unat_word_ariths)

lemma absolute_indexed_unat:
  "unat (absolute_indexed base idx) = (unat base + unat idx) mod 65536"
  unfolding absolute_indexed_def
  by (simp add: unat_ucast_8_16 unat_word_ariths)

lemma relative_target_uint:
  "uint (relative_target origin disp) = (uint origin + sint disp) mod 65536"
proof -
  have cast: "uint (scast disp :: uint16_t) = sint disp mod 65536"
    by (simp only: scast_eq uint_word_of_int) simp
  have "uint (origin + (scast disp :: uint16_t))
          = (uint origin + uint (scast disp :: uint16_t)) mod 65536"
    using uint_word_ariths(1) [of origin "scast disp :: uint16_t"] by simp
  then show ?thesis
    unfolding relative_target_def by (simp only: cast mod_add_right_eq)
qed

lemma page_crossed_div: "page_crossed u v = (unat u div 256 \<noteq> unat v div 256)"
proof -
  have "unat (drop_bit 8 w) = unat w div 256" for w :: uint16_t
    unfolding unat_drop_bit_eq by (simp add: drop_bit_eq_div)
  then show ?thesis
    unfolding page_crossed_def by (simp only: word_unat_eq_iff)
qed

lemma cursor_unat:
  "unat (cursor (resolve md c b)) =
     (unat (pc c)
      + (case md of Implied \<Rightarrow> 1 | Accumulator \<Rightarrow> 1 | Absolute \<Rightarrow> 3 | Absolute_X \<Rightarrow> 3
         | Absolute_Y \<Rightarrow> 3 | Indirect \<Rightarrow> 3 | _ \<Rightarrow> 2)) mod 65536"
  by (cases md) (simp_all add: resolve_def Let_def unat_word_ariths)

lemma flag_bit_less: "flag_bit f < 8"
  by (cases f) simp_all

lemma flag_bit_inj: "(flag_bit f = flag_bit g) = (f = g)"
  by (cases f; cases g) simp_all

lemma get_set_flag:
  "get_flag f (set_flag g v flags) = (if f = g then v else get_flag f flags)"
  using flag_bit_less [of g]
  by (simp add: get_flag_def set_flag_def bit_simps flag_bit_inj)

lemma get_flag_update_nz:
  "get_flag f (update_nz r flags) =
     (if f = Zero then r = 0 else if f = Negative then bit r 7 else get_flag f flags)"
  by (simp add: update_nz_def get_set_flag)

lemma get_flag_update_overflow_add:
  "get_flag f (update_overflow_add m n r flags) =
     (if f = Overflow then bit m 7 = bit n 7 \<and> bit r 7 \<noteq> bit m 7 else get_flag f flags)"
  by (simp add: update_overflow_add_def get_set_flag)

lemma bit7_unat: "bit w 7 = bit (unat w) 7" for w :: uint8_t
  by (simp add: bit_unsigned_iff)

lemma bit7_nat: "bit (n::nat) 7 = odd (n div 128)"
  by (simp only: bit_iff_odd_drop_bit drop_bit_eq_div) simp

lemma odd_div_128: "n < 256 \<Longrightarrow> odd (n div 128) = (128 \<le> n)" for n :: nat
proof (cases "n < 128")
  case True
  then show ?thesis by simp
next
  case False
  assume "n < 256"
  with False have "n div 128 = 1" by simp
  with False show ?thesis by simp
qed

lemma sign_bit_unat: "bit w 7 = (128 \<le> unat w)" for w :: uint8_t
  by (simp only: bit7_unat bit7_nat odd_div_128 [OF unat_byte_less])

lemma sint_unat: "sint w = int (unat w) - (if 128 \<le> unat w then 256 else 0)" for w :: uint8_t
proof -
  have "sint w = uint w - 2 ^ 8 * of_bool (bit (uint w) 7)"
    by (simp add: sint_uint signed_take_bit_eq_take_bit_minus take_bit_int_eq_self_iff
        order_less_le_trans [OF uint_lt2p])
  moreover have "bit (uint w) 7 = bit w 7"
    by (simp add: bit_uint_iff)
  ultimately show ?thesis
    by (simp add: sign_bit_unat)
qed

text \<open>
  The sign rule on unsigned values against the signed sum leaving \<open>-128..127\<close>.
\<close>

lemma overflow_arith:
  fixes ua um cin :: nat
  assumes "ua < 256" "um < 256" "cin \<le> 1"
  shows "((128 \<le> ua) = (128 \<le> um) \<and> (128 \<le> (ua + um + cin) mod 256) \<noteq> (128 \<le> ua)) =
     (int ua - (if 128 \<le> ua then 256 else 0) + (int um - (if 128 \<le> um then 256 else 0))
        + int cin < - 128
      \<or> 127 < int ua - (if 128 \<le> ua then 256 else 0)
               + (int um - (if 128 \<le> um then 256 else 0)) + int cin)"
proof (cases "ua + um + cin < 256")
  case True
  then have "(ua + um + cin) mod 256 = ua + um + cin"
    by simp
  with True assms show ?thesis
    by (simp only: split: if_split) linarith
next
  case False
  with assms have "(ua + um + cin) mod 256 = ua + um + cin - 256"
    by (simp add: mod_if)
  with False assms show ?thesis
    by (simp only: split: if_split) linarith
qed

subsection \<open>Word arithmetic against arithmetic modulo 65536 and 256\<close>

lemma address_unat: "unat (address n) = n mod 65536"
  by (simp add: address_def unat_of_nat)

lemma zero_page_unat: "unat (zero_page n) = n mod 256"
  by (simp add: zero_page_def unat_of_nat)

lemma address_of_nat: "address n = of_nat n"
  by (simp add: word_unat_eq_iff address_unat unat_of_nat)

lemma word_plus_address:
  "w + 1 = address (unat w + 1)" "w + 2 = address (unat w + 2)" "w + 3 = address (unat w + 3)"
  by (simp_all add: address_of_nat add.commute)

lemma operand_fetch:
  "read_byte b (pc c + 1) = read_byte b (address (unat (pc c) + 1))"
  "read_byte b (pc c + 2) = read_byte b (address (unat (pc c) + 2))"
  by (simp_all add: address_of_nat add.commute)

lemma zero_page_ucast: "zero_page (unat u + k) = ucast (u + of_nat k :: uint8_t)"
  by (simp add: word_unat_eq_iff zero_page_unat unat_ucast_8_16 unat_word_ariths unat_of_nat
      mod_simps)

lemma zero_page_byte: "zero_page (unat u) = ucast (u :: uint8_t)"
  using zero_page_ucast [of u 0] by simp

lemma zero_page_shift:
  "zero_page (unat (u + v :: uint8_t) + k) = zero_page (unat u + unat v + k)"
  by (simp add: word_unat_eq_iff zero_page_unat unat_word_ariths mod_simps)

lemma zero_page_indexed_zero_page: "zero_page_indexed u v = zero_page (unat u + unat v)"
  using zero_page_ucast [of u "unat v"] by (simp add: zero_page_indexed_def)

lemma word16_mult: "word16 hi lo = ucast hi * 256 + ucast lo"
proof -
  have "push_bit 8 (ucast hi :: uint16_t) + ucast lo = push_bit 8 (ucast hi) OR ucast lo"
    by (rule disjunctive_add_eq_or) (simp add: bit_eq_iff bit_simps, auto dest: bit_imp_le_length)
  then show ?thesis
    by (simp add: word16_def push_bit_eq_mult mult.commute)
qed

lemma word16_unat: "unat (word16 hi lo) = unat lo + 256 * unat hi"
  using unat_byte_less [of hi] unat_byte_less [of lo]
  by (simp add: word16_mult unat_word_ariths unat_ucast_8_16)

lemma pair_mod: "(unat l + 256 * unat h) mod 65536 = unat l + 256 * unat h"
  for l h :: uint8_t
  using unat_byte_less [of l] unat_byte_less [of h] by simp

lemma word16_address: "word16 hi lo = address (unat lo + 256 * unat hi)"
  by (simp add: word_unat_eq_iff word16_unat address_unat pair_mod)

lemma absolute_indexed_address: "absolute_indexed (address n) idx = address (n + unat idx)"
  by (simp add: absolute_indexed_def address_of_nat)

lemma page_crossed_address:
  "page_crossed (address m) (address n) = (m mod 65536 div 256 \<noteq> n mod 65536 div 256)"
  by (simp add: page_crossed_div address_unat)

lemma read_word_address:
  "read_word b w =
     address (unat (read_byte b w) + 256 * unat (read_byte b (address (unat w + 1))))"
  by (simp add: read_word_def word16_address) (simp add: address_of_nat add.commute)

lemma zero_page_word_address:
  "zero_page_word b u =
     address (unat (read_byte b (zero_page (unat u)))
              + 256 * unat (read_byte b (zero_page (unat u + 1))))"
  using zero_page_ucast [of u 1]
  by (simp add: zero_page_word_def word16_address zero_page_byte)

lemma relative_target_address:
  "relative_target (address m) disp = address (nat ((int m + sint disp) mod 65536))"
proof -
  have "uint (address m) = int m mod 65536"
    by (simp only: uint_nat address_unat zmod_int) simp
  then have "uint (relative_target (address m) disp) = (int m + sint disp) mod 65536"
    by (simp only: relative_target_uint mod_add_left_eq)
  then have "unat (relative_target (address m) disp) = nat ((int m + sint disp) mod 65536)"
    by (simp only: unat_eq_nat_uint)
  then show ?thesis
    by (simp add: word_unat_eq_iff address_unat nat_mod_distrib)
qed

lemma target_mod: "nat (k mod 65536) mod 65536 = nat (k mod 65536)"
  by (simp add: nat_mod_distrib)

lemma push_unat: "unat (s (fst (push v (c, b)))) = (unat (s c) + 255) mod 256"
proof -
  have "s c - 1 = s c + 255"
    by simp
  then have "unat (s c - 1) = unat (s c + 255)"
    by (rule arg_cong)
  also have "\<dots> = (unat (s c) + 255) mod 256"
    by (simp only: unat_word_ariths) simp
  finally show ?thesis
    by (simp add: push_def)
qed

lemma pop_unat: "unat (s (snd (pop c b))) = (unat (s c) + 1) mod 256"
  by (simp add: pop_def unat_word_ariths)

section \<open>Address computations\<close>

text \<open>
  C3: every address computation is a total function that wraps. With \<open>address n\<close> the
  16-bit address of number \<open>n\<close> modulo 65536 and \<open>zero_page n\<close> the one of \<open>n\<close> modulo
  256, the resolver returns, in each of the thirteen modes and for every state and bus,
  the result given here: the operand bytes are fetched at PC + 1 and PC + 2 modulo 65536,
  a zero-page index sum and the second pointer byte of the two zero-page indirect modes
  wrap modulo 256, an absolute or indirect-indexed sum, the second pointer byte of the
  indirect mode, the branch target and the cursor wrap modulo 65536, and a page cross is
  reported exactly when the two addresses differ in their quotient by 256. A 16-bit read
  from the bus takes its second byte at the address plus one modulo 65536, a stack
  address is $0100 plus the stack pointer, and the stack pointer wraps modulo 256 under
  push and pop. No mode but implied and accumulator is without an address, and no result
  is an error. Zero-page indexed resolution of base $FF with index $02 gives $0001, also
  through the resolver on a program whose operand byte is $FF with X = $02.
\<close>

theorem address_computations_wrap:
  "(let P = unat (pc c); X = unat (x c); Y = unat (y c);
        lo = read_byte b (address (P + 1));
        hi = read_byte b (address (P + 2));
        zp = unat lo;
        base = unat lo + 256 * unat hi;
        ptr = unat (read_byte b (zero_page zp)) + 256 * unat (read_byte b (zero_page (zp + 1)));
        target = nat ((int P + 2 + sint lo) mod 65536)
    in resolve Implied c b =
         \<lparr>operand = No_Operand, crossed = False, cursor = address (P + 1)\<rparr>
     \<and> resolve Accumulator c b =
         \<lparr>operand = On_Accumulator, crossed = False, cursor = address (P + 1)\<rparr>
     \<and> resolve Immediate c b =
         \<lparr>operand = Effective (address (P + 1)), crossed = False, cursor = address (P + 2)\<rparr>
     \<and> resolve Zero_Page c b =
         \<lparr>operand = Effective (zero_page zp), crossed = False, cursor = address (P + 2)\<rparr>
     \<and> resolve Zero_Page_X c b =
         \<lparr>operand = Effective (zero_page (zp + X)), crossed = False, cursor = address (P + 2)\<rparr>
     \<and> resolve Zero_Page_Y c b =
         \<lparr>operand = Effective (zero_page (zp + Y)), crossed = False, cursor = address (P + 2)\<rparr>
     \<and> resolve Absolute c b =
         \<lparr>operand = Effective (address base), crossed = False, cursor = address (P + 3)\<rparr>
     \<and> resolve Absolute_X c b =
         \<lparr>operand = Effective (address (base + X)),
          crossed = (base div 256 \<noteq> (base + X) mod 65536 div 256),
          cursor = address (P + 3)\<rparr>
     \<and> resolve Absolute_Y c b =
         \<lparr>operand = Effective (address (base + Y)),
          crossed = (base div 256 \<noteq> (base + Y) mod 65536 div 256),
          cursor = address (P + 3)\<rparr>
     \<and> resolve Indirect c b =
         \<lparr>operand = Effective (address (unat (read_byte b (address base))
                                          + 256 * unat (read_byte b (address (base + 1))))),
          crossed = False, cursor = address (P + 3)\<rparr>
     \<and> resolve Indexed_Indirect c b =
         \<lparr>operand = Effective (address (unat (read_byte b (zero_page (zp + X)))
                                          + 256 * unat (read_byte b (zero_page (zp + X + 1))))),
          crossed = False, cursor = address (P + 2)\<rparr>
     \<and> resolve Indirect_Indexed c b =
         \<lparr>operand = Effective (address (ptr + Y)),
          crossed = (ptr div 256 \<noteq> (ptr + Y) mod 65536 div 256),
          cursor = address (P + 2)\<rparr>
     \<and> resolve Relative c b =
         \<lparr>operand = Effective (address target),
          crossed = ((P + 2) mod 65536 div 256 \<noteq> target div 256),
          cursor = address (P + 2)\<rparr>)
   \<and> unat (address n) = n mod 65536
   \<and> unat (zero_page n) = n mod 256
   \<and> read_word b w =
       address (unat (read_byte b w) + 256 * unat (read_byte b (address (unat w + 1))))
   \<and> stack_address sp = address (256 + unat sp)
   \<and> unat (s (fst (push v (c, b)))) = (unat (s c) + 255) mod 256
   \<and> unat (s (snd (pop c b))) = (unat (s c) + 1) mod 256
   \<and> (operand (resolve md c b) = No_Operand) = (md = Implied)
   \<and> (operand (resolve md c b) = On_Accumulator) = (md = Accumulator)
   \<and> unat (zero_page_indexed base idx) = (unat base + unat idx) mod 256
   \<and> zero_page_indexed 0xFF 0x02 = 0x0001
   \<and> operand (resolve Zero_Page_X (at_0600\<lparr>x := 0x02\<rparr>) ((\<lambda>_. 0)(0x0601 := 0xFF)))
       = Effective 0x0001
   \<and> unat (absolute_indexed base16 idx) = (unat base16 + unat idx) mod 65536
   \<and> uint (relative_target origin disp) = (uint origin + sint disp) mod 65536
   \<and> unat (cursor (resolve md c b)) =
       (unat (pc c)
        + (case md of Implied \<Rightarrow> 1 | Accumulator \<Rightarrow> 1 | Absolute \<Rightarrow> 3 | Absolute_X \<Rightarrow> 3
           | Absolute_Y \<Rightarrow> 3 | Indirect \<Rightarrow> 3 | _ \<Rightarrow> 2)) mod 65536
   \<and> operand (resolve Zero_Page_X c b)
       = Effective (zero_page_indexed (read_byte b (pc c + 1)) (x c))
   \<and> operand (resolve Zero_Page_Y c b)
       = Effective (zero_page_indexed (read_byte b (pc c + 1)) (y c))
   \<and> operand (resolve Indexed_Indirect c b)
       = Effective (zero_page_word b (read_byte b (pc c + 1) + x c))
   \<and> unat (read_byte b (pc c + 1) + x c) = (unat (read_byte b (pc c + 1)) + unat (x c)) mod 256
   \<and> operand (resolve Absolute_X c b)
       = Effective (absolute_indexed
           (word16 (read_byte b (pc c + 2)) (read_byte b (pc c + 1))) (x c))
   \<and> operand (resolve Absolute_Y c b)
       = Effective (absolute_indexed
           (word16 (read_byte b (pc c + 2)) (read_byte b (pc c + 1))) (y c))
   \<and> operand (resolve Indirect_Indexed c b)
       = Effective (absolute_indexed (zero_page_word b (read_byte b (pc c + 1))) (y c))
   \<and> operand (resolve Relative c b)
       = Effective (relative_target (pc c + 2) (read_byte b (pc c + 1)))"
  unfolding Let_def
  apply (intro conjI)
  subgoal by (simp add: resolve_def Let_def word_plus_address)
  subgoal by (simp add: resolve_def Let_def word_plus_address)
  subgoal by (simp add: resolve_def Let_def word_plus_address)
  subgoal by (simp add: resolve_def Let_def word_plus_address operand_fetch zero_page_byte)
  subgoal
    by (simp add: resolve_def Let_def word_plus_address operand_fetch
        zero_page_indexed_zero_page)
  subgoal
    by (simp add: resolve_def Let_def word_plus_address operand_fetch
        zero_page_indexed_zero_page)
  subgoal by (simp add: resolve_def Let_def word_plus_address operand_fetch word16_address)
  subgoal
    by (simp add: resolve_def Let_def word_plus_address operand_fetch word16_address
        absolute_indexed_address page_crossed_address pair_mod)
  subgoal
    by (simp add: resolve_def Let_def word_plus_address operand_fetch word16_address
        absolute_indexed_address page_crossed_address pair_mod)
  subgoal
    by (simp add: resolve_def Let_def word_plus_address operand_fetch word16_address
        read_word_address address_unat pair_mod)
  subgoal
    by (simp add: resolve_def Let_def word_plus_address operand_fetch zero_page_word_address
        zero_page_shift [of _ _ 0, simplified] zero_page_shift [of _ _ 1, simplified])
  subgoal
    by (simp add: resolve_def Let_def word_plus_address operand_fetch zero_page_word_address
        absolute_indexed_address page_crossed_address pair_mod)
  subgoal
    by (simp add: resolve_def Let_def word_plus_address operand_fetch relative_target_address
        page_crossed_address target_mod add.commute [of "uint (pc c)" 2])
  subgoal by (rule address_unat)
  subgoal by (rule zero_page_unat)
  subgoal by (rule read_word_address)
  subgoal by (simp add: stack_address_def address_of_nat)
  subgoal by (rule push_unat)
  subgoal by (rule pop_unat)
  subgoal by (cases md) (simp_all add: resolve_def Let_def)
  subgoal by (cases md) (simp_all add: resolve_def Let_def)
  subgoal by (rule zero_page_indexed_unat)
  subgoal by (simp add: zero_page_indexed_def)
  subgoal by (simp add: resolve_def Let_def at_0600_def read_byte_def zero_page_indexed_def)
  subgoal by (rule absolute_indexed_unat)
  subgoal by (rule relative_target_uint)
  subgoal by (rule cursor_unat)
  subgoal by (simp add: resolve_def Let_def)
  subgoal by (simp add: resolve_def Let_def)
  subgoal by (simp add: resolve_def Let_def)
  subgoal by (simp add: unat_word_ariths)
  subgoal by (simp add: resolve_def Let_def)
  subgoal by (simp add: resolve_def Let_def)
  subgoal by (simp add: resolve_def Let_def)
  subgoal by (simp add: resolve_def Let_def)
  done

section \<open>ADC\<close>

lemma adc_fields:
  "pc (adc m c) = pc c" "s (adc m c) = s c" "x (adc m c) = x c" "y (adc m c) = y c"
  "a (adc m c) = of_nat (unat (a c) + unat m + (if get_flag Carry (p c) then 1 else 0))"
  by (simp_all add: adc_def Let_def)

lemma adc_overflow:
  "get_flag Overflow (p (adc m c)) =
     (bit (a c) 7 = bit m 7 \<and> bit (a (adc m c)) 7 \<noteq> bit (a c) 7)"
  by (simp add: adc_def Let_def get_flag_update_nz get_flag_update_overflow_add)

lemma adc_flags:
  "get_flag Carry (p (adc m c)) =
     (255 < unat (a c) + unat m + (if get_flag Carry (p c) then 1 else 0))"
  "get_flag Zero (p (adc m c)) = (a (adc m c) = 0)"
  "get_flag Negative (p (adc m c)) = bit (a (adc m c)) 7"
  by (simp_all add: adc_def Let_def get_flag_update_nz get_flag_update_overflow_add
      get_set_flag)

lemma adc_overflow_signed:
  "get_flag Overflow (p (adc m c)) =
     (sint (a c) + sint m + (if get_flag Carry (p c) then 1 else 0) < - 128
      \<or> 127 < sint (a c) + sint m + (if get_flag Carry (p c) then 1 else 0))"
proof -
  define ua um cin where "ua = unat (a c)" and "um = unat m"
    and "cin = (if get_flag Carry (p c) then 1 else 0 :: nat)"
  have bounds: "ua < 256" "um < 256" "cin \<le> 1"
    by (simp_all add: ua_def um_def cin_def unat_byte_less)
  have r: "unat (a (adc m c)) = (ua + um + cin) mod 256"
    by (simp only: adc_fields unat_of_nat ua_def um_def cin_def) simp
  have v: "get_flag Overflow (p (adc m c)) =
          ((128 \<le> ua) = (128 \<le> um) \<and> (128 \<le> (ua + um + cin) mod 256) \<noteq> (128 \<le> ua))"
    by (simp only: adc_overflow sign_bit_unat r) (simp add: ua_def um_def)
  have t: "sint (a c) + sint m + (if get_flag Carry (p c) then 1 else 0) =
      int ua - (if 128 \<le> ua then 256 else 0) + (int um - (if 128 \<le> um then 256 else 0))
        + int cin"
    by (simp add: sint_unat ua_def um_def cin_def)
  show ?thesis
    unfolding v t by (rule overflow_arith [OF bounds])
qed

lemma adc_01_7F:
  assumes "a c = 0x01" and "\<not> get_flag Carry (p c)"
  shows "a (adc 0x7F c) = 0x80" "get_flag Negative (p (adc 0x7F c))"
    "get_flag Overflow (p (adc 0x7F c))" "\<not> get_flag Zero (p (adc 0x7F c))"
    "\<not> get_flag Carry (p (adc 0x7F c))"
proof -
  show r: "a (adc 0x7F c) = 0x80"
    using assms by (simp add: adc_fields)
  show "get_flag Negative (p (adc 0x7F c))" "\<not> get_flag Zero (p (adc 0x7F c))"
    unfolding adc_flags r by simp_all
  show "get_flag Overflow (p (adc 0x7F c))"
    unfolding adc_overflow r using assms by simp
  show "\<not> get_flag Carry (p (adc 0x7F c))"
    unfolding adc_flags using assms by simp
qed

lemma step_adc:
  assumes "kind (table (read_byte b (pc c))) = ADC"
    and "operand (resolve (mode (table (read_byte b (pc c)))) c b) = Effective addr"
  shows "step pol table c b =
           Inr (adc (read_byte b addr)
                  (c\<lparr>pc := cursor (resolve (mode (table (read_byte b (pc c)))) c b)\<rparr>),
                b,
                cycles (table (read_byte b (pc c)))
                  + (if crossed (resolve (mode (table (read_byte b (pc c)))) c b)
                     then 1 else 0))"
  using assms by (simp add: step_def Let_def)

text \<open>
  C4: one step on an ADC entry whose mode yields the operand address \<open>addr\<close> returns the
  registers after the addition. In them V is set exactly when the accumulator and the
  operand share their sign bit and the sign bit of the result differs from it, which is
  exactly when the signed sum with the carry leaves -128..127. For \<open>ADC #$7F\<close>
  (immediate mode, operand $7F) with A = $01 and Carry clear, the result has A = $80,
  N = 1, V = 1, Z = 0, C = 0.
\<close>

theorem adc_overflow_rule:
  assumes "kind (table (read_byte b (pc c))) = ADC"
    and "operand (resolve (mode (table (read_byte b (pc c)))) c b) = Effective addr"
  shows "\<exists>c' n. step pol table c b = Inr (c', b, n)
           \<and> get_flag Overflow (p c') =
               (bit (a c) 7 = bit (read_byte b addr) 7 \<and> bit (a c') 7 \<noteq> bit (a c) 7)
           \<and> get_flag Overflow (p c') =
               (sint (a c) + sint (read_byte b addr)
                  + (if get_flag Carry (p c) then 1 else 0) < - 128
                \<or> 127 < sint (a c) + sint (read_byte b addr)
                           + (if get_flag Carry (p c) then 1 else 0))
           \<and> (mode (table (read_byte b (pc c))) = Immediate \<and> read_byte b (pc c + 1) = 0x7F
                \<and> a c = 0x01 \<and> \<not> get_flag Carry (p c)
                \<longrightarrow> a c' = 0x80 \<and> get_flag Negative (p c') \<and> get_flag Overflow (p c')
                    \<and> \<not> get_flag Zero (p c') \<and> \<not> get_flag Carry (p c'))"
proof (intro exI conjI impI)
  let ?c1 = "c\<lparr>pc := cursor (resolve (mode (table (read_byte b (pc c)))) c b)\<rparr>"
  show "step pol table c b =
          Inr (adc (read_byte b addr) ?c1, b,
               cycles (table (read_byte b (pc c)))
                 + (if crossed (resolve (mode (table (read_byte b (pc c)))) c b)
                    then 1 else 0))"
    using assms by (rule step_adc)
  show "get_flag Overflow (p (adc (read_byte b addr) ?c1)) =
          (bit (a c) 7 = bit (read_byte b addr) 7
           \<and> bit (a (adc (read_byte b addr) ?c1)) 7 \<noteq> bit (a c) 7)"
    by (simp add: adc_overflow)
  show "get_flag Overflow (p (adc (read_byte b addr) ?c1)) =
          (sint (a c) + sint (read_byte b addr)
             + (if get_flag Carry (p c) then 1 else 0) < - 128
           \<or> 127 < sint (a c) + sint (read_byte b addr)
                      + (if get_flag Carry (p c) then 1 else 0))"
    using adc_overflow_signed [of "read_byte b addr" ?c1] by simp
  assume h: "mode (table (read_byte b (pc c))) = Immediate \<and> read_byte b (pc c + 1) = 0x7F
               \<and> a c = 0x01 \<and> \<not> get_flag Carry (p c)"
  with assms(2) have m: "read_byte b addr = 0x7F"
    by (auto simp add: resolve_def Let_def)
  from h have "a ?c1 = 0x01" and "\<not> get_flag Carry (p ?c1)"
    by simp_all
  from adc_01_7F [OF this]
  show "a (adc (read_byte b addr) ?c1) = 0x80"
    and "get_flag Negative (p (adc (read_byte b addr) ?c1))"
    and "get_flag Overflow (p (adc (read_byte b addr) ?c1))"
    and "\<not> get_flag Zero (p (adc (read_byte b addr) ?c1))"
    and "\<not> get_flag Carry (p (adc (read_byte b addr) ?c1))"
    unfolding m by blast+
qed

lemma sample_table_simps:
  "sample_table 0x69 = \<lparr>kind = ADC, mode = Immediate, cycles = 2\<rparr>"
  "sample_table 0x00 = \<lparr>kind = BRK, mode = Implied, cycles = 7\<rparr>"
  "sample_table 0x40 = \<lparr>kind = RTI, mode = Implied, cycles = 6\<rparr>"
  "sample_table 0xD0 = \<lparr>kind = Branch Zero False, mode = Relative, cycles = 2\<rparr>"
  "sample_table 0xF0 = \<lparr>kind = Branch Zero True, mode = Relative, cycles = 2\<rparr>"
  by (simp_all add: sample_table_def)

theorem adc_overflow_rule_witness:
  "kind (sample_table (read_byte adc_7F_program (pc at_0600))) = ADC
   \<and> operand (resolve (mode (sample_table (read_byte adc_7F_program (pc at_0600))))
        at_0600 adc_7F_program) = Effective 0x0601
   \<and> read_byte adc_7F_program 0x0601 = 0x7F \<and> a at_0600 = 0x01
   \<and> \<not> get_flag Carry (p at_0600)
   \<and> (\<exists>c' n. step Permissive sample_table at_0600 adc_7F_program = Inr (c', adc_7F_program, n)
         \<and> a c' = 0x80 \<and> get_flag Negative (p c') \<and> get_flag Overflow (p c')
         \<and> \<not> get_flag Zero (p c') \<and> \<not> get_flag Carry (p c'))"
proof -
  have k: "kind (sample_table (read_byte adc_7F_program (pc at_0600))) = ADC"
    and md: "mode (sample_table (read_byte adc_7F_program (pc at_0600))) = Immediate"
    by (simp_all add: at_0600_def adc_7F_program_def read_byte_def sample_table_simps)
  have ea: "operand (resolve (mode (sample_table (read_byte adc_7F_program (pc at_0600))))
              at_0600 adc_7F_program) = Effective 0x0601"
    unfolding md by (simp add: resolve_def Let_def at_0600_def)
  have m: "read_byte adc_7F_program 0x0601 = 0x7F"
    "read_byte adc_7F_program (pc at_0600 + 1) = 0x7F"
    by (simp_all add: adc_7F_program_def read_byte_def at_0600_def)
  have r: "a at_0600 = 0x01" "\<not> get_flag Carry (p at_0600)"
    by (simp_all add: at_0600_def get_flag_def)
  from adc_overflow_rule
         [where table = sample_table and b = adc_7F_program and c = at_0600
            and addr = "0x0601" and pol = Permissive, OF k ea] md m r
  have "\<exists>c' n. step Permissive sample_table at_0600 adc_7F_program
            = Inr (c', adc_7F_program, n)
         \<and> a c' = 0x80 \<and> get_flag Negative (p c') \<and> get_flag Overflow (p c')
         \<and> \<not> get_flag Zero (p c') \<and> \<not> get_flag Carry (p c')"
    by blast
  with k ea m r show ?thesis
    by blast
qed

section \<open>Branches\<close>

lemma step_branch:
  assumes "kind (table (read_byte b (pc c))) = Branch f v"
    and "mode (table (read_byte b (pc c))) = Relative"
  shows "step pol table c b =
     (if get_flag f (p c) = v
      then Inr (c\<lparr>pc := relative_target (pc c + 2) (read_byte b (pc c + 1))\<rparr>, b,
                cycles (table (read_byte b (pc c))) + 1
                  + (if page_crossed (pc c + 2)
                          (relative_target (pc c + 2) (read_byte b (pc c + 1)))
                     then 1 else 0))
      else Inr (c\<lparr>pc := pc c + 2\<rparr>, b, cycles (table (read_byte b (pc c)))))"
  using assms by (simp add: step_def Let_def resolve_def)

text \<open>
  C6: one step on a branch entry (relative mode) returns the base cycle count of the
  entry when the condition is false; one cycle more when it is true and the target lies
  in the page of the address after the instruction; two cycles more when it is true and
  the target lies in another page. PC is the target when the branch is taken and the
  address after the instruction otherwise. The page of an address is the address
  divided by 256.
\<close>

theorem branch_cycle_count:
  assumes "kind (table (read_byte b (pc c))) = Branch f v"
    and "mode (table (read_byte b (pc c))) = Relative"
  shows "step pol table c b =
     Inr (c\<lparr>pc := (if get_flag f (p c) = v
                    then relative_target (pc c + 2) (read_byte b (pc c + 1))
                    else pc c + 2)\<rparr>,
          b,
          cycles (table (read_byte b (pc c))) +
            (if get_flag f (p c) \<noteq> v then 0
             else if unat (relative_target (pc c + 2) (read_byte b (pc c + 1))) div 256
                       = unat (pc c + 2) div 256
                  then 1 else 2))"
  using step_branch [of table b c f v pol, OF assms] by (simp add: page_crossed_div eq_commute)

theorem branch_cycle_count_witness:
  "kind (sample_table (read_byte (branch_program 0xF0 0x20) (pc at_06F0))) = Branch Zero True
   \<and> mode (sample_table (read_byte (branch_program 0xF0 0x20) (pc at_06F0))) = Relative
   \<and> step Permissive sample_table at_06F0 (branch_program 0xF0 0x20)
       = Inr (at_06F0\<lparr>pc := 0x06F2\<rparr>, branch_program 0xF0 0x20, 2)
   \<and> kind (sample_table (read_byte (branch_program 0xD0 0x02) (pc at_06F0))) = Branch Zero False
   \<and> mode (sample_table (read_byte (branch_program 0xD0 0x02) (pc at_06F0))) = Relative
   \<and> step Permissive sample_table at_06F0 (branch_program 0xD0 0x02)
       = Inr (at_06F0\<lparr>pc := 0x06F4\<rparr>, branch_program 0xD0 0x02, 3)
   \<and> kind (sample_table (read_byte (branch_program 0xD0 0x20) (pc at_06F0))) = Branch Zero False
   \<and> mode (sample_table (read_byte (branch_program 0xD0 0x20) (pc at_06F0))) = Relative
   \<and> step Permissive sample_table at_06F0 (branch_program 0xD0 0x20)
       = Inr (at_06F0\<lparr>pc := 0x0712\<rparr>, branch_program 0xD0 0x20, 4)"
proof -
  have opc: "read_byte (branch_program opc disp) (pc at_06F0) = opc"
    and disp: "read_byte (branch_program opc disp) (pc at_06F0 + 1) = disp" for opc disp
    by (simp_all add: branch_program_def read_byte_def at_06F0_def)
  have z: "\<not> get_flag Zero (p at_06F0)" and next_pc: "pc at_06F0 + 2 = 0x06F2"
    by (simp_all add: at_06F0_def get_flag_def)
  have beq: "kind (sample_table (read_byte (branch_program 0xF0 0x20) (pc at_06F0)))
               = Branch Zero True"
      "mode (sample_table (read_byte (branch_program 0xF0 0x20) (pc at_06F0))) = Relative"
    and bne_near: "kind (sample_table (read_byte (branch_program 0xD0 0x02) (pc at_06F0)))
               = Branch Zero False"
      "mode (sample_table (read_byte (branch_program 0xD0 0x02) (pc at_06F0))) = Relative"
    and bne_far: "kind (sample_table (read_byte (branch_program 0xD0 0x20) (pc at_06F0)))
               = Branch Zero False"
      "mode (sample_table (read_byte (branch_program 0xD0 0x20) (pc at_06F0))) = Relative"
    by (simp_all add: opc sample_table_simps)
  have "step Permissive sample_table at_06F0 (branch_program 0xF0 0x20)
          = Inr (at_06F0\<lparr>pc := 0x06F2\<rparr>, branch_program 0xF0 0x20, 2)"
    using branch_cycle_count
        [where table = sample_table and b = "branch_program 0xF0 0x20" and c = at_06F0
           and pol = Permissive, OF beq]
    by (simp add: opc disp z next_pc sample_table_simps)
  moreover have "step Permissive sample_table at_06F0 (branch_program 0xD0 0x02)
          = Inr (at_06F0\<lparr>pc := 0x06F4\<rparr>, branch_program 0xD0 0x02, 3)"
    using branch_cycle_count
        [where table = sample_table and b = "branch_program 0xD0 0x02" and c = at_06F0
           and pol = Permissive, OF bne_near]
    by (simp add: opc disp z next_pc sample_table_simps relative_target_def)
  moreover have "step Permissive sample_table at_06F0 (branch_program 0xD0 0x20)
          = Inr (at_06F0\<lparr>pc := 0x0712\<rparr>, branch_program 0xD0 0x20, 4)"
    using branch_cycle_count
        [where table = sample_table and b = "branch_program 0xD0 0x20" and c = at_06F0
           and pol = Permissive, OF bne_far]
    by (simp add: opc disp z next_pc sample_table_simps relative_target_def)
  ultimately show ?thesis
    using beq bne_near bne_far by blast
qed

section \<open>BRK and RTI\<close>













end
